theory Spec2Isabelle
  imports Complex_Main
begin

section \<open>Data model\<close>

text \<open>
  The session orchestrator of \<^verbatim>\<open>services/whatsapp/SessionManager.ts\<close>, with the
  Mongoose models it writes to (\<^verbatim>\<open>models/Session.ts\<close>, \<^verbatim>\<open>models/Message.ts\<close>,
  \<^verbatim>\<open>models/Chat.ts\<close>) and the fan-out of \<^verbatim>\<open>SocketManager.ts\<close>.

  Every \<^verbatim>\<open>async\<close> handler is modelled as one atomic step on an explicit state: the
  client handle registry (\<^verbatim>\<open>SessionManager.sessions\<close>), the three collections, the
  log of events handed to \<^verbatim>\<open>SocketManager.emitToUser\<close>, and the list of background
  synchronisation tasks that were started without being awaited. What the external
  SDK and the clock decide (whether a constructor or a teardown throws, what
  \<^verbatim>\<open>getChats\<close> returns, \<^verbatim>\<open>new Date()\<close>, the generated session identifier) is a
  parameter of the function that consumes it. The collections are modelled as
  reliable: the only store error is the duplicate-key error (code 11000) of a unique
  index. Mongoose's own \<^verbatim>\<open>createdAt\<close>/\<^verbatim>\<open>updatedAt\<close> of sessions and chats are left out,
  and so are the schema's validators and its \<^verbatim>\<open>trim\<close> of strings: a document is stored
  as the orchestrator hands it over, and a timestamp as the exact number of milliseconds.
  A synchronisation pass is one step as well; in the code it yields at every \<^verbatim>\<open>await\<close>, so
  two passes of one session can interleave, which changes neither what one pass emits nor
  how many passes are started.
\<close>

datatype SessionStatus =
  INITIALIZING | QR_SCAN_PENDING | SYNCING | READY | DISCONNECTED | FAILED

record session_doc =
  s_userId :: string
  s_sessionId :: string
  s_phoneNumber :: "string option"
  s_status :: SessionStatus
  s_qrCode :: "string option"
  s_syncProgress :: int
  s_lastSyncedAt :: "nat option"

record message_doc =
  m_id :: nat
  m_sessionId :: string
  m_chatId :: string
  m_messageId :: string
  m_body :: string
  m_timestamp :: int
  m_fromMe :: bool
  m_sender :: string
  m_isGroupMsg :: bool
  m_ackStatus :: int
  m_hasMedia :: bool
  m_isRead :: bool
  m_readBy :: "string list"
  m_createdAt :: nat
  m_updatedAt :: nat

record chat_doc =
  c_sessionId :: string
  c_chatId :: string
  c_name :: string
  c_isGroup :: bool
  c_participants :: "string list"
  c_lastMessage :: string
  c_lastMessageTime :: int
  c_unreadCount :: int

text \<open>The objects of the external SDK, as far as the orchestrator reads them.\<close>

record wa_message =
  w_from :: string
  w_id :: string
  w_body :: "string option"
  w_timestamp :: int
  w_fromMe :: bool
  w_isGroupMsg :: "bool option"
  w_ack :: "int option"
  w_hasMedia :: bool

datatype error =
  CapacityError int
  | DuplicateKey
  | ClientError string

record wa_chat =
  wc_id :: string
  wc_user :: string
  wc_name :: "string option"
  wc_isGroup :: bool
  wc_participants :: "string list"
  wc_unreadCount :: "int option"
  wc_fetchMessages :: "error + wa_message list"

text \<open>The fan-out: \<^verbatim>\<open>WSEvents\<close> with their payloads, addressed to the room of one user.\<close>

datatype ws_event =
  QR_CODE string string
  | SESSION_STATUS string SessionStatus
  | MESSAGE_RECEIVED string message_doc
  | SYNC_PROGRESS string int

type_synonym emission = "string \<times> ws_event"

text \<open>
  \<^verbatim>\<open>SessionCallbacks\<close>: optional hooks of the caller. The hooks in this repository
  (\<^verbatim>\<open>WhatsAppController.createSession\<close>) only emit through the fan-out, so a hook is
  modelled by the emissions it makes, and it does not throw.
\<close>

record callbacks =
  onQR :: "(string \<Rightarrow> emission list) option"
  onReady :: "emission list option"
  onDisconnected :: "emission list option"

definition no_callbacks :: callbacks where
  "no_callbacks = \<lparr>onQR = None, onReady = None, onDisconnected = None\<rparr>"

text \<open>A client handle: the closure data its event handlers were wired with.\<close>

record client =
  cl_sessionId :: string
  cl_userId :: string
  cl_callbacks :: callbacks

record message_db =
  rows :: "message_doc list"
  next_id :: nat

record state =
  sessions :: "string \<rightharpoonup> client"
  sessionDb :: "session_doc list"
  messageDb :: message_db
  chatDb :: "chat_doc list"
  emitted :: "emission list"
  syncTasks :: "string list"

section \<open>The session collection\<close>

fun Session_findOne :: "session_doc list \<Rightarrow> string \<Rightarrow> session_doc option" where
  "Session_findOne [] sid = None"
| "Session_findOne (d # ds) sid =
     (if s_sessionId d = sid then Some d else Session_findOne ds sid)"

text \<open>\<^verbatim>\<open>findOneAndUpdate\<close> without \<^verbatim>\<open>upsert\<close>: the first match is updated, no match is a no-op.\<close>

fun Session_findOneAndUpdate ::
  "string \<Rightarrow> (session_doc \<Rightarrow> session_doc) \<Rightarrow> session_doc list \<Rightarrow> session_doc list" where
  "Session_findOneAndUpdate sid f [] = []"
| "Session_findOneAndUpdate sid f (d # ds) =
     (if s_sessionId d = sid then f d # ds else d # Session_findOneAndUpdate sid f ds)"

definition Session_find :: "session_doc list \<Rightarrow> SessionStatus list \<Rightarrow> session_doc list" where
  "Session_find db sts = filter (\<lambda>d. s_status d \<in> set sts) db"

definition getActiveSessionsCount :: "session_doc list \<Rightarrow> string \<Rightarrow> int" where
  "getActiveSessionsCount db userId =
     int (length (filter (\<lambda>d. s_userId d = userId \<and> s_status d \<in> set [READY, SYNCING]) db))"

text \<open>\<^verbatim>\<open>Session.create\<close>: \<^verbatim>\<open>sessionId\<close> carries a unique index; the schema defaults fill the rest.\<close>

definition Session_create ::
  "session_doc list \<Rightarrow> string \<Rightarrow> string \<Rightarrow> SessionStatus \<Rightarrow> error + (session_doc \<times> session_doc list)" where
  "Session_create db userId sessionId st =
     (if sessionId \<in> set (map s_sessionId db) then Inl DuplicateKey
      else let doc = \<lparr>s_userId = userId, s_sessionId = sessionId, s_phoneNumber = None,
                       s_status = st, s_qrCode = None, s_syncProgress = 0,
                       s_lastSyncedAt = None\<rparr>
           in Inr (doc, db @ [doc]))"

definition set_status :: "string \<Rightarrow> SessionStatus \<Rightarrow> state \<Rightarrow> state" where
  "set_status sid st s =
     s\<lparr>sessionDb := Session_findOneAndUpdate sid (\<lambda>d. d\<lparr>s_status := st\<rparr>) (sessionDb s)\<rparr>"

section \<open>The fan-out\<close>

text \<open>
  \<^verbatim>\<open>SocketManager\<close> after \<^verbatim>\<open>initialize\<close>: \<^verbatim>\<open>emitToUser\<close> hands the event to the room
  \<^verbatim>\<open>user:<userId>\<close>. The log records, in order, what was handed over.
\<close>

definition emitToUser :: "string \<Rightarrow> ws_event \<Rightarrow> state \<Rightarrow> state" where
  "emitToUser userId ev s = s\<lparr>emitted := emitted s @ [(userId, ev)]\<rparr>"

definition emitQRCode :: "string \<Rightarrow> string \<Rightarrow> string \<Rightarrow> state \<Rightarrow> state" where
  "emitQRCode sessionId userId qr = emitToUser userId (QR_CODE sessionId qr)"

definition emitSessionStatus :: "string \<Rightarrow> string \<Rightarrow> SessionStatus \<Rightarrow> state \<Rightarrow> state" where
  "emitSessionStatus sessionId userId st = emitToUser userId (SESSION_STATUS sessionId st)"

definition emitMessage :: "string \<Rightarrow> string \<Rightarrow> message_doc \<Rightarrow> state \<Rightarrow> state" where
  "emitMessage sessionId userId m = emitToUser userId (MESSAGE_RECEIVED sessionId m)"

definition emitSyncProgress :: "string \<Rightarrow> string \<Rightarrow> int \<Rightarrow> state \<Rightarrow> state" where
  "emitSyncProgress sessionId userId p = emitToUser userId (SYNC_PROGRESS sessionId p)"

definition run_callback :: "emission list option \<Rightarrow> state \<Rightarrow> state" where
  "run_callback cb s = (case cb of None \<Rightarrow> s | Some es \<Rightarrow> s\<lparr>emitted := emitted s @ es\<rparr>)"

section \<open>Creating, initialising and destroying a session\<close>

text \<open>
  \<^verbatim>\<open>initializeClient\<close>: builds the handle, wires its handlers and registers it.
  \<^verbatim>\<open>ctorThrows\<close> says whether building the handle throws for this identifier.
  \<^verbatim>\<open>client.initialize()\<close> is not awaited; its rejection arrives later, as
  \<^verbatim>\<open>on_initialize_rejected\<close>.
\<close>

definition initializeClient ::
  "(string \<Rightarrow> bool) \<Rightarrow> string \<Rightarrow> string \<Rightarrow> callbacks \<Rightarrow> state \<Rightarrow> error + state" where
  "initializeClient ctorThrows sessionId userId cbs s =
     (if ctorThrows sessionId then Inl (ClientError ''client'')
      else Inr (s\<lparr>sessions := (sessions s)(sessionId \<mapsto>
             \<lparr>cl_sessionId = sessionId, cl_userId = userId, cl_callbacks = cbs\<rparr>)\<rparr>))"

definition on_initialize_rejected :: "string \<Rightarrow> state \<Rightarrow> state" where
  "on_initialize_rejected sessionId s =
     (let s1 = set_status sessionId FAILED s
      in s1\<lparr>sessions := (sessions s1)(sessionId := None)\<rparr>)"

text \<open>
  \<^verbatim>\<open>createSession\<close>. \<^verbatim>\<open>maxSessionsPerUser\<close> is \<^verbatim>\<open>config.whatsapp.maxSessionsPerUser\<close>
  and \<^verbatim>\<open>newId\<close> is what \<^verbatim>\<open>generateSessionId()\<close> returns. The result is paired with the
  state the call leaves behind, also when it throws.
\<close>

definition createSession ::
  "int \<Rightarrow> string \<Rightarrow> (string \<Rightarrow> bool) \<Rightarrow> string \<Rightarrow> callbacks \<Rightarrow> state
     \<Rightarrow> (error + (string \<times> session_doc)) \<times> state" where
  "createSession maxSessionsPerUser newId ctorThrows userId cbs s =
     (let activeCount = getActiveSessionsCount (sessionDb s) userId
      in if activeCount \<ge> maxSessionsPerUser then (Inl (CapacityError maxSessionsPerUser), s)
         else let sessionId = newId
              in case Session_create (sessionDb s) userId sessionId INITIALIZING of
                   Inl e \<Rightarrow> (Inl e, s)
                 | Inr (sessionDoc, db') \<Rightarrow>
                     (let s1 = s\<lparr>sessionDb := db'\<rparr>
                      in case initializeClient ctorThrows sessionId userId cbs s1 of
                           Inl e \<Rightarrow> (Inl e, s1)
                         | Inr s2 \<Rightarrow> (Inr (sessionId, sessionDoc), s2)))"

text \<open>
  \<^verbatim>\<open>destroySession\<close>. \<^verbatim>\<open>destroyThrows\<close> says whether \<^verbatim>\<open>client.destroy()\<close> rejects for
  this handle; the call sits outside any \<^verbatim>\<open>try\<close>, so the rejection leaves the function.
\<close>

definition destroySession ::
  "(string \<Rightarrow> bool) \<Rightarrow> string \<Rightarrow> state \<Rightarrow> (error + unit) \<times> state" where
  "destroySession destroyThrows sessionId s =
     (case sessions s sessionId of
        Some c \<Rightarrow>
          if destroyThrows sessionId then (Inl (ClientError ''destroy''), s)
          else (Inr (), set_status sessionId DISCONNECTED
                          (s\<lparr>sessions := (sessions s)(sessionId := None)\<rparr>))
      | None \<Rightarrow> (Inr (), set_status sessionId DISCONNECTED s))"

section \<open>Restoring sessions at startup\<close>

text \<open>
  \<^verbatim>\<open>restoreSession\<close>: the \<^verbatim>\<open>catch\<close> block persists \<^verbatim>\<open>FAILED\<close> and throws the error again.
\<close>

definition restoreSession ::
  "(string \<Rightarrow> bool) \<Rightarrow> string \<Rightarrow> string \<Rightarrow> callbacks \<Rightarrow> state \<Rightarrow> (error + unit) \<times> state" where
  "restoreSession ctorThrows sessionId userId cbs s =
     (let s1 = set_status sessionId INITIALIZING s
      in case initializeClient ctorThrows sessionId userId cbs s1 of
           Inl e \<Rightarrow> (Inl e, set_status sessionId FAILED s1)
         | Inr s2 \<Rightarrow> (Inr (), s2))"

text \<open>The \<^verbatim>\<open>for\<close> loop of \<^verbatim>\<open>restoreSessions\<close>: the inner \<^verbatim>\<open>catch\<close> logs and goes on.\<close>

fun restore_loop :: "(string \<Rightarrow> bool) \<Rightarrow> session_doc list \<Rightarrow> state \<Rightarrow> state" where
  "restore_loop ctorThrows [] s = s"
| "restore_loop ctorThrows (d # ds) s =
     (case restoreSession ctorThrows (s_sessionId d) (s_userId d) no_callbacks s of
        (Inl e, s') \<Rightarrow> restore_loop ctorThrows ds s'
      | (Inr u, s') \<Rightarrow> restore_loop ctorThrows ds s')"

definition restoreSessions :: "(string \<Rightarrow> bool) \<Rightarrow> state \<Rightarrow> state" where
  "restoreSessions ctorThrows s =
     (let found = Session_find (sessionDb s) [READY, SYNCING, DISCONNECTED]
      in if length found = 0 then s else restore_loop ctorThrows found s)"

section \<open>The message and chat collections\<close>

definition same_key :: "string \<Rightarrow> string \<Rightarrow> message_doc \<Rightarrow> bool" where
  "same_key sessionId messageId r \<longleftrightarrow> m_sessionId r = sessionId \<and> m_messageId r = messageId"

text \<open>
  \<^verbatim>\<open>Message.collection.insertOne\<close>: the driver assigns \<^verbatim>\<open>_id\<close>; the unique index on
  (\<^verbatim>\<open>messageId\<close>, \<^verbatim>\<open>sessionId\<close>) refuses a second row with error code 11000.
\<close>

definition Message_insertOne :: "message_db \<Rightarrow> message_doc \<Rightarrow> error + (nat \<times> message_db)" where
  "Message_insertOne db doc =
     (if list_ex (same_key (m_sessionId doc) (m_messageId doc)) (rows db) then Inl DuplicateKey
      else Inr (next_id db,
                \<lparr>rows = rows db @ [doc\<lparr>m_id := next_id db\<rparr>], next_id = Suc (next_id db)\<rparr>))"

definition Message_findById :: "message_db \<Rightarrow> nat \<Rightarrow> message_doc option" where
  "Message_findById db i = find (\<lambda>r. m_id r = i) (rows db)"

definition Message_findOne :: "message_db \<Rightarrow> string \<Rightarrow> string \<Rightarrow> message_doc option" where
  "Message_findOne db sessionId messageId = find (same_key sessionId messageId) (rows db)"

fun update_first :: "('a \<Rightarrow> bool) \<Rightarrow> ('a \<Rightarrow> 'a) \<Rightarrow> 'a list \<Rightarrow> 'a list" where
  "update_first P f [] = []"
| "update_first P f (x # xs) = (if P x then f x # xs else x # update_first P f xs)"

definition Message_findOneAndUpdate ::
  "string \<Rightarrow> string \<Rightarrow> (message_doc \<Rightarrow> message_doc) \<Rightarrow> message_db \<Rightarrow> message_db" where
  "Message_findOneAndUpdate sessionId messageId f db =
     db\<lparr>rows := update_first (same_key sessionId messageId) f (rows db)\<rparr>"

text \<open>JavaScript's \<^verbatim>\<open>x || d\<close> on an optional string, number and boolean.\<close>

definition or_string :: "string option \<Rightarrow> string \<Rightarrow> string" where
  "or_string x d = (case x of None \<Rightarrow> d | Some v \<Rightarrow> if v = [] then d else v)"

definition or_int :: "int option \<Rightarrow> int \<Rightarrow> int" where
  "or_int x d = (case x of None \<Rightarrow> d | Some v \<Rightarrow> if v = 0 then d else v)"

definition or_bool :: "bool option \<Rightarrow> bool \<Rightarrow> bool" where
  "or_bool x d = (case x of None \<Rightarrow> d | Some v \<Rightarrow> if v then v else d)"

text \<open>The document both ingestion paths hand to \<^verbatim>\<open>insertOne\<close>.\<close>

definition new_message_doc :: "string \<Rightarrow> string \<Rightarrow> wa_message \<Rightarrow> nat \<Rightarrow> message_doc" where
  "new_message_doc sessionId chatId msg now =
     \<lparr>m_id = 0, m_sessionId = sessionId, m_chatId = chatId, m_messageId = w_id msg,
      m_body = or_string (w_body msg) [], m_timestamp = w_timestamp msg * 1000,
      m_fromMe = w_fromMe msg, m_sender = w_from msg,
      m_isGroupMsg = or_bool (w_isGroupMsg msg) False, m_ackStatus = or_int (w_ack msg) 0,
      m_hasMedia = w_hasMedia msg, m_isRead = w_fromMe msg, m_readBy = [],
      m_createdAt = now, m_updatedAt = now\<rparr>"

definition chat_key :: "string \<Rightarrow> string \<Rightarrow> chat_doc \<Rightarrow> bool" where
  "chat_key sessionId chatId c \<longleftrightarrow> c_sessionId c = sessionId \<and> c_chatId c = chatId"

definition Chat_findOneAndUpdate ::
  "string \<Rightarrow> string \<Rightarrow> (chat_doc \<Rightarrow> chat_doc) \<Rightarrow> chat_doc list \<Rightarrow> chat_doc list" where
  "Chat_findOneAndUpdate sessionId chatId f db = update_first (chat_key sessionId chatId) f db"

definition Chat_upsert :: "chat_doc \<Rightarrow> chat_doc list \<Rightarrow> chat_doc list" where
  "Chat_upsert doc db =
     (if list_ex (chat_key (c_sessionId doc) (c_chatId doc)) db
      then update_first (chat_key (c_sessionId doc) (c_chatId doc)) (\<lambda>c. doc) db
      else db @ [doc])"

section \<open>Event handlers of a client handle\<close>

definition on_qr :: "string \<Rightarrow> string \<Rightarrow> callbacks \<Rightarrow> string \<Rightarrow> state \<Rightarrow> state" where
  "on_qr sessionId userId cbs qr s =
     (let s1 = s\<lparr>sessionDb := Session_findOneAndUpdate sessionId
                     (\<lambda>d. d\<lparr>s_status := QR_SCAN_PENDING, s_qrCode := Some qr\<rparr>) (sessionDb s)\<rparr>;
          s2 = emitQRCode sessionId userId qr s1
      in run_callback (map_option (\<lambda>f. f qr) (onQR cbs)) s2)"

text \<open>
  The \<^verbatim>\<open>ready\<close> handler ends by calling \<^verbatim>\<open>startBackgroundSync\<close> without awaiting it:
  the task is recorded as started, and runs on its own.
\<close>

definition on_ready :: "string \<Rightarrow> string \<Rightarrow> callbacks \<Rightarrow> string \<Rightarrow> state \<Rightarrow> state" where
  "on_ready sessionId userId cbs widUser s =
     (let s1 = s\<lparr>sessionDb := Session_findOneAndUpdate sessionId
                     (\<lambda>d. d\<lparr>s_status := READY, s_phoneNumber := Some widUser, s_qrCode := None\<rparr>)
                     (sessionDb s)\<rparr>;
          s2 = emitSessionStatus sessionId userId READY s1;
          s3 = run_callback (onReady cbs) s2
      in s3\<lparr>syncTasks := syncTasks s3 @ [sessionId]\<rparr>)"

definition on_auth_failure :: "string \<Rightarrow> state \<Rightarrow> state" where
  "on_auth_failure sessionId s = set_status sessionId FAILED s"

definition on_disconnected :: "string \<Rightarrow> callbacks \<Rightarrow> state \<Rightarrow> state" where
  "on_disconnected sessionId cbs s =
     (let s1 = set_status sessionId DISCONNECTED s;
          s2 = run_callback (onDisconnected cbs) s1
      in s2\<lparr>sessions := (sessions s2)(sessionId := None)\<rparr>)"

text \<open>
  The \<^verbatim>\<open>message\<close> handler. A throw of \<^verbatim>\<open>insertOne\<close> skips the rest of the \<^verbatim>\<open>try\<close>
  block; the \<^verbatim>\<open>catch\<close> only decides whether to log.
\<close>

definition on_message :: "string \<Rightarrow> string \<Rightarrow> wa_message \<Rightarrow> nat \<Rightarrow> state \<Rightarrow> state" where
  "on_message sessionId userId message now s =
     (case Message_insertOne (messageDb s) (new_message_doc sessionId (w_from message) message now) of
        Inl e \<Rightarrow> s
      | Inr (insertedId, db') \<Rightarrow>
          (let s1 = s\<lparr>messageDb := db'\<rparr>;
               s2 = (case Message_findById db' insertedId of
                       Some savedMessage \<Rightarrow> emitMessage sessionId userId savedMessage s1
                     | None \<Rightarrow> s1)
           in s2\<lparr>chatDb := Chat_findOneAndUpdate sessionId (w_from message)
                    (\<lambda>c. c\<lparr>c_lastMessage := or_string (w_body message) [],
                           c_lastMessageTime := w_timestamp message * 1000,
                           c_unreadCount := c_unreadCount c + (if w_fromMe message then 0 else 1)\<rparr>)
                    (chatDb s2)\<rparr>))"

definition on_message_ack :: "string \<Rightarrow> string \<Rightarrow> int \<Rightarrow> nat \<Rightarrow> state \<Rightarrow> state" where
  "on_message_ack sessionId messageId ack now s =
     s\<lparr>messageDb := Message_findOneAndUpdate sessionId messageId
          (\<lambda>r. r\<lparr>m_ackStatus := ack, m_updatedAt := now\<rparr>) (messageDb s)\<rparr>"

section \<open>JavaScript numbers\<close>

text \<open>
  \<^verbatim>\<open>Math.round(((i + 1) / totalChats) * 100)\<close> is computed on IEEE 754 doubles: the
  quotient is rounded to a double, the product is rounded to a double, and
  \<^verbatim>\<open>Math.round\<close> takes the nearest integer, a tie going up. A double is modelled by the
  rational it denotes and every operation by the exact result rounded to the nearest
  double, ties to the even significand. The model leaves out overflow, subnormal numbers
  and the sign of zero: it is exact where operands and results have a magnitude from
  \<^verbatim>\<open>2^-1022\<close> up to \<^verbatim>\<open>2^1023\<close>. The loop index and the length of a JavaScript array
  are integers below \<^verbatim>\<open>2^32\<close>, so the quotient lies between \<^verbatim>\<open>2^-32\<close> and 1 and the
  product between 0 and 100. With no conversation the loop body does not run.
\<close>

function bit_length :: "int \<Rightarrow> nat" where
  "bit_length n = (if n \<le> 0 then 0 else Suc (bit_length (n div 2)))"
  by pat_completeness auto
termination
  by (relation "measure nat") auto

declare bit_length.simps [simp del]

text \<open>The binary exponent \<open>e\<close> of a positive number \<open>x\<close>: \<open>2 powi e \<le> x < 2 powi (e + 1)\<close>.\<close>

definition binade :: "rat \<Rightarrow> int" where
  "binade x =
     (let (a, b) = quotient_of x;
          d = int (bit_length a) - int (bit_length b)
      in if 2 powi d \<le> x then d else d - 1)"

definition round_half_even :: "rat \<Rightarrow> int" where
  "round_half_even x =
     (let f = \<lfloor>x\<rfloor>; r = x - of_int f
      in if r < 1 / 2 then f else if 1 / 2 < r then f + 1 else if even f then f else f + 1)"

text \<open>Rounding to a double: 53 significant bits.\<close>

definition to_double :: "rat \<Rightarrow> rat" where
  "to_double x =
     (if x = 0 then 0
      else let e = binade \<bar>x\<bar> - 52
           in sgn x * of_int (round_half_even (\<bar>x\<bar> / 2 powi e)) * 2 powi e)"

definition js_div :: "rat \<Rightarrow> rat \<Rightarrow> rat" where
  "js_div x y = to_double (x / y)"

definition js_mul :: "rat \<Rightarrow> rat \<Rightarrow> rat" where
  "js_mul x y = to_double (x * y)"

definition Math_round :: "rat \<Rightarrow> int" where
  "Math_round x = \<lfloor>x + 1 / 2\<rfloor>"

text \<open>The value of \<^verbatim>\<open>progress\<close> in iteration \<^verbatim>\<open>i\<close> of the loop of \<^verbatim>\<open>startBackgroundSync\<close>.\<close>

definition progress :: "nat \<Rightarrow> nat \<Rightarrow> int" where
  "progress i totalChats = Math_round (js_mul (js_div (of_nat (i + 1)) (of_nat totalChats)) 100)"



section \<open>The synchronisation task\<close>

definition sync_insert :: "string \<Rightarrow> string \<Rightarrow> nat \<Rightarrow> message_db \<Rightarrow> wa_message \<Rightarrow> message_db" where
  "sync_insert sessionId chatId now db msg =
     (case Message_insertOne db (new_message_doc sessionId chatId msg now) of
        Inl e \<Rightarrow> db
      | Inr (insertedId, db') \<Rightarrow> db')"

text \<open>
  The body of the inner \<^verbatim>\<open>try\<close>: a throw of \<^verbatim>\<open>fetchMessages\<close> skips the conversation.
\<close>

definition sync_chat :: "string \<Rightarrow> nat \<Rightarrow> wa_chat \<Rightarrow> state \<Rightarrow> state" where
  "sync_chat sessionId now chat s =
     (case wc_fetchMessages chat of
        Inl e \<Rightarrow> s
      | Inr messages \<Rightarrow>
          (let lastMessage = (case messages of [] \<Rightarrow> None | m # ms \<Rightarrow> Some m);
               s1 = s\<lparr>chatDb := Chat_upsert
                      \<lparr>c_sessionId = sessionId, c_chatId = wc_id chat,
                       c_name = or_string (wc_name chat) (wc_user chat),
                       c_isGroup = wc_isGroup chat,
                       c_participants = (if wc_isGroup chat then wc_participants chat else []),
                       c_lastMessage = (case lastMessage of None \<Rightarrow> []
                                        | Some m \<Rightarrow> or_string (w_body m) []),
                       c_lastMessageTime = (case lastMessage of None \<Rightarrow> int now
                                            | Some m \<Rightarrow> if w_timestamp m = 0 then int now
                                                        else w_timestamp m * 1000),
                       c_unreadCount = or_int (wc_unreadCount chat) 0\<rparr> (chatDb s)\<rparr>
           in s1\<lparr>messageDb := foldl (sync_insert sessionId (wc_id chat) now) (messageDb s1) messages\<rparr>))"

text \<open>The \<^verbatim>\<open>for\<close> loop over \<^verbatim>\<open>chats\<close>, from index \<^verbatim>\<open>i\<close> on.\<close>

fun sync_loop :: "string \<Rightarrow> string \<Rightarrow> nat \<Rightarrow> nat \<Rightarrow> nat \<Rightarrow> wa_chat list \<Rightarrow> state \<Rightarrow> state" where
  "sync_loop sessionId userId totalChats now i [] s = s"
| "sync_loop sessionId userId totalChats now i (chat # rest) s =
     (let p = progress i totalChats;
          s1 = sync_chat sessionId now chat s;
          s2 = s1\<lparr>sessionDb := Session_findOneAndUpdate sessionId
                      (\<lambda>d. d\<lparr>s_syncProgress := p\<rparr>) (sessionDb s1)\<rparr>;
          s3 = emitSyncProgress sessionId userId p s2
      in sync_loop sessionId userId totalChats now (i + 1) rest s3)"

text \<open>The outer \<^verbatim>\<open>catch\<close> of \<^verbatim>\<open>startBackgroundSync\<close>.\<close>

definition sync_failed :: "string \<Rightarrow> state \<Rightarrow> state" where
  "sync_failed sessionId s =
     (case Session_findOne (sessionDb s) sessionId of
        None \<Rightarrow> s
      | Some session \<Rightarrow>
          emitSessionStatus sessionId (s_userId session) FAILED (set_status sessionId FAILED s))"

text \<open>
  \<^verbatim>\<open>startBackgroundSync\<close>, run to its end. \<^verbatim>\<open>getChats\<close> is what \<^verbatim>\<open>client.getChats()\<close>
  returns or throws.
\<close>

definition startBackgroundSync ::
  "string \<Rightarrow> string \<Rightarrow> (error + wa_chat list) \<Rightarrow> nat \<Rightarrow> state \<Rightarrow> state" where
  "startBackgroundSync sessionId userId getChats now s =
     (case Session_findOne (sessionDb s) sessionId of
        None \<Rightarrow> s
      | Some session \<Rightarrow>
          (let s1 = s\<lparr>sessionDb := Session_findOneAndUpdate sessionId
                          (\<lambda>d. d\<lparr>s_status := SYNCING, s_syncProgress := 0\<rparr>) (sessionDb s)\<rparr>;
               s2 = emitSyncProgress sessionId userId 0 s1
           in case getChats of
                Inl e \<Rightarrow> sync_failed sessionId s2
              | Inr chats \<Rightarrow>
                  (let totalChats = length chats;
                       s3 = sync_loop sessionId userId totalChats now 0 chats s2;
                       s4 = s3\<lparr>sessionDb := Session_findOneAndUpdate sessionId
                                  (\<lambda>d. d\<lparr>s_status := READY, s_syncProgress := 100,
                                         s_lastSyncedAt := Some now\<rparr>) (sessionDb s3)\<rparr>
                   in emitSessionStatus sessionId userId READY s4)))"

section \<open>Sequences of events\<close>

text \<open>The lifecycle events a client handle delivers to the handlers wired in \<^verbatim>\<open>setupClientHandlers\<close>.\<close>

datatype client_event = Qr string | Ready string | AuthFailure | Disconnected

fun handle_event :: "string \<Rightarrow> string \<Rightarrow> callbacks \<Rightarrow> client_event \<Rightarrow> state \<Rightarrow> state" where
  "handle_event sessionId userId cbs (Qr qr) s = on_qr sessionId userId cbs qr s"
| "handle_event sessionId userId cbs (Ready widUser) s = on_ready sessionId userId cbs widUser s"
| "handle_event sessionId userId cbs AuthFailure s = on_auth_failure sessionId s"
| "handle_event sessionId userId cbs Disconnected s = on_disconnected sessionId cbs s"

fun run_events :: "string \<Rightarrow> string \<Rightarrow> callbacks \<Rightarrow> client_event list \<Rightarrow> state \<Rightarrow> state" where
  "run_events sessionId userId cbs [] s = s"
| "run_events sessionId userId cbs (e # es) s =
     run_events sessionId userId cbs es (handle_event sessionId userId cbs e s)"

fun is_Qr :: "client_event \<Rightarrow> bool" where
  "is_Qr (Qr qr) = True"
| "is_Qr e = False"

fun is_Ready :: "client_event \<Rightarrow> bool" where
  "is_Ready (Ready w) = True"
| "is_Ready e = False"

text \<open>What one event does to the session record of its own session.\<close>

fun doc_step :: "client_event \<Rightarrow> session_doc \<Rightarrow> session_doc" where
  "doc_step (Qr qr) d = d\<lparr>s_status := QR_SCAN_PENDING, s_qrCode := Some qr\<rparr>"
| "doc_step (Ready w) d = d\<lparr>s_status := READY, s_phoneNumber := Some w, s_qrCode := None\<rparr>"
| "doc_step AuthFailure d = d\<lparr>s_status := FAILED\<rparr>"
| "doc_step Disconnected d = d\<lparr>s_status := DISCONNECTED\<rparr>"

definition both_set :: "session_doc \<Rightarrow> bool" where
  "both_set d \<longleftrightarrow> s_qrCode d \<noteq> None \<and> s_phoneNumber d \<noteq> None"

fun no_qr_after_ready :: "client_event list \<Rightarrow> bool" where
  "no_qr_after_ready [] = True"
| "no_qr_after_ready (e # es) =
     ((if is_Ready e then \<not> list_ex is_Qr es else True) \<and> no_qr_after_ready es)"

text \<open>
  The two ways a remote message reaches the store: the live \<^verbatim>\<open>message\<close> handler, and
  the insert of the synchronisation task for a message of conversation \<^verbatim>\<open>chatId\<close>.
\<close>

datatype ingest = Live wa_message | Sync string wa_message

fun ingest_step :: "string \<Rightarrow> string \<Rightarrow> nat \<Rightarrow> ingest \<Rightarrow> state \<Rightarrow> state" where
  "ingest_step sessionId userId now (Live msg) s = on_message sessionId userId msg now s"
| "ingest_step sessionId userId now (Sync chatId msg) s =
     s\<lparr>messageDb := sync_insert sessionId chatId now (messageDb s) msg\<rparr>"

fun ingest_all :: "string \<Rightarrow> string \<Rightarrow> nat \<Rightarrow> ingest list \<Rightarrow> state \<Rightarrow> state" where
  "ingest_all sessionId userId now [] s = s"
| "ingest_all sessionId userId now (x # xs) s =
     ingest_all sessionId userId now xs (ingest_step sessionId userId now x s)"

fun ingest_id :: "ingest \<Rightarrow> string" where
  "ingest_id (Live msg) = w_id msg"
| "ingest_id (Sync chatId msg) = w_id msg"

fun is_Live :: "ingest \<Rightarrow> bool" where
  "is_Live (Live msg) = True"
| "is_Live x = False"

definition stored_count :: "string \<Rightarrow> string \<Rightarrow> state \<Rightarrow> nat" where
  "stored_count sessionId messageId s =
     length (filter (same_key sessionId messageId) (rows (messageDb s)))"

fun is_received :: "string \<Rightarrow> string \<Rightarrow> emission \<Rightarrow> bool" where
  "is_received sessionId messageId (u, MESSAGE_RECEIVED sid m) =
     (sid = sessionId \<and> m_messageId m = messageId)"
| "is_received sessionId messageId (u, ev) = False"

definition received_count :: "string \<Rightarrow> string \<Rightarrow> state \<Rightarrow> nat" where
  "received_count sessionId messageId s =
     length (filter (is_received sessionId messageId) (emitted s))"

section \<open>Observations used in the statements\<close>

text \<open>
  The emissions of an optional hook, the well-formedness of the message collection
  (every stored \<^verbatim>\<open>_id\<close> was handed out before), the document an ingestion writes, and
  the progress values of a pass over \<^verbatim>\<open>totalChats\<close> conversations in loop order.
\<close>

definition cb_emissions :: "emission list option \<Rightarrow> emission list" where
  "cb_emissions cb = (case cb of None \<Rightarrow> [] | Some es \<Rightarrow> es)"

definition ids_fresh :: "message_db \<Rightarrow> bool" where
  "ids_fresh db \<longleftrightarrow> list_all (\<lambda>r. m_id r < next_id db) (rows db)"

definition ingest_doc :: "string \<Rightarrow> nat \<Rightarrow> ingest \<Rightarrow> message_doc" where
  "ingest_doc sessionId now x =
     (case x of Live msg \<Rightarrow> new_message_doc sessionId (w_from msg) msg now
      | Sync chatId msg \<Rightarrow> new_message_doc sessionId chatId msg now)"


section \<open>Example states\<close>

definition example_session :: "string \<Rightarrow> string \<Rightarrow> SessionStatus \<Rightarrow> session_doc" where
  "example_session userId sessionId st =
     \<lparr>s_userId = userId, s_sessionId = sessionId, s_phoneNumber = None, s_status = st,
      s_qrCode = None, s_syncProgress = 0, s_lastSyncedAt = None\<rparr>"

definition empty_state :: state where
  "empty_state = \<lparr>sessions = Map.empty, sessionDb = [], messageDb = \<lparr>rows = [], next_id = 0\<rparr>,
                  chatDb = [], emitted = [], syncTasks = []\<rparr>"

definition example_client :: "string \<Rightarrow> string \<Rightarrow> client" where
  "example_client userId sessionId =
     \<lparr>cl_sessionId = sessionId, cl_userId = userId, cl_callbacks = no_callbacks\<rparr>"

text \<open>The state after user \<^verbatim>\<open>u1\<close> created a first session.\<close>

definition created :: state where
  "created = snd (createSession 5 ''s1'' (\<lambda>i. False) ''u1'' no_callbacks empty_state)"

text \<open>User \<^verbatim>\<open>u1\<close> with two sessions, one ready and one synchronising, both with a handle.\<close>

definition two_active :: state where
  "two_active = empty_state
     \<lparr>sessions := [''s1'' \<mapsto> example_client ''u1'' ''s1'', ''s2'' \<mapsto> example_client ''u1'' ''s2''],
      sessionDb := [example_session ''u1'' ''s1'' READY, example_session ''u1'' ''s2'' SYNCING]\<rparr>"

definition example_message :: "string \<Rightarrow> int \<Rightarrow> wa_message" where
  "example_message mid ack =
     \<lparr>w_from = ''c1'', w_id = mid, w_body = Some ''hi'', w_timestamp = 1700000000,
      w_fromMe = True, w_isGroupMsg = None, w_ack = Some ack, w_hasMedia = False\<rparr>"



text \<open>
  Four stored sessions of two users; the last one is not restorable.
\<close>

definition three_stored :: state where
  "three_stored = empty_state
     \<lparr>sessionDb := [example_session ''u1'' ''s1'' READY, example_session ''u2'' ''s2'' SYNCING,
                    example_session ''u1'' ''s3'' DISCONNECTED, example_session ''u2'' ''s4'' FAILED]\<rparr>"

section \<open>Facts about the session collection\<close>

lemma Session_findOne_update:
  assumes "\<And>d. s_sessionId (f d) = s_sessionId d"
  shows "Session_findOne (Session_findOneAndUpdate sid f db) sid' =
           (if sid' = sid then map_option f (Session_findOne db sid) else Session_findOne db sid')"
  using assms by (induction db) auto

lemma status_after_set_status:
  "map_option s_status (Session_findOne (sessionDb (set_status sid st s)) sid) =
     map_option (\<lambda>d. st) (Session_findOne (sessionDb s) sid)"
  by (simp add: set_status_def Session_findOne_update option.map_comp comp_def)

lemma sessions_set_status [simp]: "sessions (set_status sid st s) = sessions s"
  by (simp add: set_status_def)

lemma emitted_set_status [simp]: "emitted (set_status sid st s) = emitted s"
  by (simp add: set_status_def)

section \<open>Session creation at the per-user limit\<close>

text \<open>
  C3. When the user already has at least \<^verbatim>\<open>maxSessionsPerUser\<close> sessions whose status is
  \<^verbatim>\<open>READY\<close> or \<^verbatim>\<open>SYNCING\<close>, \<^verbatim>\<open>createSession\<close> throws the capacity error and leaves
  the whole state as it was: no session record is created and no handle is registered.
\<close>

theorem createSession_capacity:
  assumes "maxSessionsPerUser \<le> getActiveSessionsCount (sessionDb s) userId"
  shows "createSession maxSessionsPerUser newId ctorThrows userId cbs s =
           (Inl (CapacityError maxSessionsPerUser), s)"
  using assms by (simp add: createSession_def)

theorem createSession_capacity_witness:
  "2 \<le> getActiveSessionsCount (sessionDb two_active) ''u1'' \<and>
   createSession 2 ''s3'' (\<lambda>i. False) ''u1'' no_callbacks two_active =
     (Inl (CapacityError 2), two_active)"
proof -
  have h: "2 \<le> getActiveSessionsCount (sessionDb two_active) ''u1''"
    by (simp add: getActiveSessionsCount_def two_active_def empty_state_def example_session_def)
  from createSession_capacity [OF h] h show ?thesis by simp
qed

section \<open>Destroying a session\<close>




text \<open>
  C10. For a session with no handle in the registry, \<^verbatim>\<open>destroySession\<close> returns
  normally whatever the teardown would do, leaves the registry as it is, and performs
  the status write: the session record, when there is one, has status \<^verbatim>\<open>DISCONNECTED\<close>
  afterwards.
\<close>

theorem destroySession_unregistered:
  assumes "sessions s sid = None"
  shows "destroySession destroyThrows sid s = (Inr (), set_status sid DISCONNECTED s) \<and>
         sessions (snd (destroySession destroyThrows sid s)) = sessions s \<and>
         map_option s_status (Session_findOne (sessionDb (snd (destroySession destroyThrows sid s))) sid)
           = map_option (\<lambda>d. DISCONNECTED) (Session_findOne (sessionDb s) sid)"
  using assms by (simp add: destroySession_def status_after_set_status)

theorem destroySession_unregistered_witness:
  "sessions (two_active\<lparr>sessions := Map.empty\<rparr>) ''s2'' = None \<and>
   fst (destroySession (\<lambda>i. True) ''s2'' (two_active\<lparr>sessions := Map.empty\<rparr>)) = Inr () \<and>
   map_option s_status (Session_findOne (sessionDb (snd
       (destroySession (\<lambda>i. True) ''s2'' (two_active\<lparr>sessions := Map.empty\<rparr>)))) ''s2'')
     = Some DISCONNECTED"
proof -
  have h: "sessions (two_active\<lparr>sessions := Map.empty\<rparr>) ''s2'' = None" by simp
  have rec: "Session_findOne (sessionDb (two_active\<lparr>sessions := Map.empty\<rparr>)) ''s2''
               = Some (example_session ''u1'' ''s2'' SYNCING)"
    by (simp add: two_active_def empty_state_def example_session_def)
  from destroySession_unregistered [OF h, of "\<lambda>i. True"] h rec show ?thesis by auto
qed

section \<open>Facts about the fan-out and the handlers\<close>

lemma emitted_emitToUser [simp]: "emitted (emitToUser u ev s) = emitted s @ [(u, ev)]"
  by (simp add: emitToUser_def)

lemma sessionDb_emitToUser [simp]: "sessionDb (emitToUser u ev s) = sessionDb s"
  by (simp add: emitToUser_def)

lemma sessions_emitToUser [simp]: "sessions (emitToUser u ev s) = sessions s"
  by (simp add: emitToUser_def)

lemma syncTasks_emitToUser [simp]: "syncTasks (emitToUser u ev s) = syncTasks s"
  by (simp add: emitToUser_def)

lemma run_callback_fields [simp]:
  "emitted (run_callback cb s) = emitted s @ cb_emissions cb"
  "sessionDb (run_callback cb s) = sessionDb s"
  "sessions (run_callback cb s) = sessions s"
  "syncTasks (run_callback cb s) = syncTasks s"
  by (simp_all add: run_callback_def cb_emissions_def split: option.splits)

lemma sessionDb_set_status:
  "Session_findOne (sessionDb (set_status sid st s)) sid' =
     (if sid' = sid then map_option (\<lambda>d. d\<lparr>s_status := st\<rparr>) (Session_findOne (sessionDb s) sid)
      else Session_findOne (sessionDb s) sid')"
  by (simp add: set_status_def Session_findOne_update)

lemma syncTasks_set_status [simp]: "syncTasks (set_status sid st s) = syncTasks s"
  by (simp add: set_status_def)

section \<open>Startup restoration\<close>

lemma restoreSession_doc:
  "Session_findOne (sessionDb (snd (restoreSession ctorThrows sid uid cbs s))) sid' =
     (if sid' = sid
      then map_option (\<lambda>d. d\<lparr>s_status := (if ctorThrows sid then FAILED else INITIALIZING)\<rparr>)
             (Session_findOne (sessionDb s) sid)
      else Session_findOne (sessionDb s) sid')"
  by (cases "Session_findOne (sessionDb s) sid")
     (simp_all add: restoreSession_def initializeClient_def Let_def sessionDb_set_status)

lemma restoreSession_registry:
  "sessions (snd (restoreSession ctorThrows sid uid cbs s)) =
     (if ctorThrows sid then sessions s
      else (sessions s)(sid \<mapsto> \<lparr>cl_sessionId = sid, cl_userId = uid, cl_callbacks = cbs\<rparr>))"
  by (simp add: restoreSession_def initializeClient_def Let_def)

lemma restore_loop_step:
  "restore_loop ctorThrows (d # ds) s =
     restore_loop ctorThrows ds (snd (restoreSession ctorThrows (s_sessionId d) (s_userId d) no_callbacks s))"
  by (cases "restoreSession ctorThrows (s_sessionId d) (s_userId d) no_callbacks s")
     (auto split: sum.splits)

lemma restore_loop_status:
  "map_option s_status (Session_findOne (sessionDb (restore_loop ctorThrows ds s)) sid) =
     (if sid \<in> s_sessionId ` set ds
      then map_option (\<lambda>d. if ctorThrows sid then FAILED else INITIALIZING)
             (Session_findOne (sessionDb s) sid)
      else map_option s_status (Session_findOne (sessionDb s) sid))"
proof (induction ds arbitrary: s)
  case Nil
  show ?case by simp
next
  case (Cons d ds)
  show ?case
    unfolding restore_loop_step
    by (simp add: Cons.IH restoreSession_doc option.map_comp comp_def)
qed

lemma restore_loop_registry:
  "dom (sessions (restore_loop ctorThrows ds s)) =
     dom (sessions s) \<union> {sid \<in> s_sessionId ` set ds. \<not> ctorThrows sid}"
proof (induction ds arbitrary: s)
  case Nil
  show ?case by simp
next
  case (Cons d ds)
  show ?case
    unfolding restore_loop_step
    by (auto simp add: Cons.IH restoreSession_registry)
qed

lemma on_initialize_rejected_doc:
  "Session_findOne (sessionDb (on_initialize_rejected sid s)) sid' =
     (if sid' = sid then map_option (\<lambda>d. d\<lparr>s_status := FAILED\<rparr>) (Session_findOne (sessionDb s) sid)
      else Session_findOne (sessionDb s) sid')"
  by (simp add: on_initialize_rejected_def Let_def sessionDb_set_status)

lemma on_initialize_rejected_registry:
  "sessions (on_initialize_rejected sid s) = (sessions s)(sid := None)"
  by (simp add: on_initialize_rejected_def Let_def)

lemma findOne_member:
  "d \<in> set db \<Longrightarrow> Session_findOne db (s_sessionId d) \<noteq> None"
  by (induction db) auto

text \<open>
  C5. Every stored session whose status is \<^verbatim>\<open>READY\<close>, \<^verbatim>\<open>SYNCING\<close> or \<^verbatim>\<open>DISCONNECTED\<close>
  is restored by \<^verbatim>\<open>restoreSessions\<close>, whatever happens to the others: when building its
  handle throws, its status is \<^verbatim>\<open>FAILED\<close> afterwards and no handle is added for it;
  otherwise its status is \<^verbatim>\<open>INITIALIZING\<close> and its handle is registered. The outcome for
  one session depends on its own failure only, so a failure neither aborts nor skips the
  restoration of the sessions after it. When \<^verbatim>\<open>client.initialize()\<close> of a restored session
  rejects later, that session is marked \<^verbatim>\<open>FAILED\<close> and the records and handles of all
  other sessions stay as they are.
\<close>

theorem restoreSessions_independent:
  assumes "d \<in> set (Session_find (sessionDb s) [READY, SYNCING, DISCONNECTED])"
  shows "map_option s_status
           (Session_findOne (sessionDb (restoreSessions ctorThrows s)) (s_sessionId d))
           = Some (if ctorThrows (s_sessionId d) then FAILED else INITIALIZING) \<and>
         (s_sessionId d \<in> dom (sessions (restoreSessions ctorThrows s)) \<longleftrightarrow>
            s_sessionId d \<in> dom (sessions s) \<or> \<not> ctorThrows (s_sessionId d)) \<and>
         map_option s_status (Session_findOne (sessionDb
             (on_initialize_rejected (s_sessionId d) (restoreSessions ctorThrows s))) (s_sessionId d))
           = Some FAILED \<and>
         (sid' \<noteq> s_sessionId d \<longrightarrow>
            Session_findOne (sessionDb
                (on_initialize_rejected (s_sessionId d) (restoreSessions ctorThrows s))) sid'
              = Session_findOne (sessionDb (restoreSessions ctorThrows s)) sid' \<and>
            sessions (on_initialize_rejected (s_sessionId d) (restoreSessions ctorThrows s)) sid'
              = sessions (restoreSessions ctorThrows s) sid')"
proof -
  let ?found = "Session_find (sessionDb s) [READY, SYNCING, DISCONNECTED]"
  from assms have ne: "length ?found \<noteq> 0" by auto
  from assms have mem: "s_sessionId d \<in> s_sessionId ` set ?found" by blast
  from assms have "d \<in> set (sessionDb s)" by (simp add: Session_find_def)
  then obtain d0 where d0: "Session_findOne (sessionDb s) (s_sessionId d) = Some d0"
    using findOne_member by fastforce
  have rs: "restoreSessions ctorThrows s = restore_loop ctorThrows ?found s"
    using ne by (simp add: restoreSessions_def Let_def)
  have st: "map_option s_status
              (Session_findOne (sessionDb (restore_loop ctorThrows ?found s)) (s_sessionId d))
              = Some (if ctorThrows (s_sessionId d) then FAILED else INITIALIZING)"
    using mem d0 by (simp add: restore_loop_status)
  then obtain d1 where d1:
    "Session_findOne (sessionDb (restore_loop ctorThrows ?found s)) (s_sessionId d) = Some d1"
    by auto
  show ?thesis
    unfolding rs using st mem d1
    by (simp add: restore_loop_registry on_initialize_rejected_doc on_initialize_rejected_registry)
qed

theorem restoreSessions_independent_witness:
  "example_session ''u2'' ''s2'' SYNCING \<in> set (Session_find (sessionDb three_stored) [READY, SYNCING, DISCONNECTED]) \<and>
   example_session ''u1'' ''s3'' DISCONNECTED \<in> set (Session_find (sessionDb three_stored) [READY, SYNCING, DISCONNECTED]) \<and>
   map_option s_status (Session_findOne (sessionDb (restoreSessions (\<lambda>i. i = ''s2'') three_stored)) ''s2'')
     = Some FAILED \<and>
   map_option s_status (Session_findOne (sessionDb (restoreSessions (\<lambda>i. i = ''s2'') three_stored)) ''s3'')
     = Some INITIALIZING \<and>
   ''s3'' \<in> dom (sessions (restoreSessions (\<lambda>i. i = ''s2'') three_stored)) \<and>
   ''s2'' \<notin> dom (sessions (restoreSessions (\<lambda>i. i = ''s2'') three_stored)) \<and>
   ''s1'' \<noteq> ''s3'' \<and>
   map_option s_status (Session_findOne (sessionDb
       (on_initialize_rejected ''s3'' (restoreSessions (\<lambda>i. i = ''s2'') three_stored))) ''s3'')
     = Some FAILED \<and>
   Session_findOne (sessionDb
       (on_initialize_rejected ''s3'' (restoreSessions (\<lambda>i. i = ''s2'') three_stored))) ''s1''
     = Session_findOne (sessionDb (restoreSessions (\<lambda>i. i = ''s2'') three_stored)) ''s1''"
proof -
  have h2: "example_session ''u2'' ''s2'' SYNCING
              \<in> set (Session_find (sessionDb three_stored) [READY, SYNCING, DISCONNECTED])"
    by (simp add: Session_find_def three_stored_def empty_state_def example_session_def)
  have h3: "example_session ''u1'' ''s3'' DISCONNECTED
              \<in> set (Session_find (sessionDb three_stored) [READY, SYNCING, DISCONNECTED])"
    by (simp add: Session_find_def three_stored_def empty_state_def example_session_def)
  have r: "dom (sessions three_stored) = {}" by (simp add: three_stored_def empty_state_def)
  have i2: "s_sessionId (example_session ''u2'' ''s2'' SYNCING) = ''s2''"
    and i3: "s_sessionId (example_session ''u1'' ''s3'' DISCONNECTED) = ''s3''"
    by (simp_all add: example_session_def)
  have n: "''s1'' \<noteq> ''s3''" by simp
  from restoreSessions_independent [OF h2, of "\<lambda>i. i = ''s2''" "''s1''"]
       restoreSessions_independent [OF h3, of "\<lambda>i. i = ''s2''" "''s1''"] h2 h3 r n
  show ?thesis unfolding i2 i3 by simp
qed

section \<open>QR payload and phone number\<close>

lemma created_eq:
  "created = empty_state
     \<lparr>sessions := [''s1'' \<mapsto> \<lparr>cl_sessionId = ''s1'', cl_userId = ''u1'', cl_callbacks = no_callbacks\<rparr>],
      sessionDb := [example_session ''u1'' ''s1'' INITIALIZING]\<rparr>"
  by (simp add: created_def createSession_def getActiveSessionsCount_def Session_create_def
      initializeClient_def empty_state_def example_session_def Let_def)

lemma doc_handle_event:
  "Session_findOne (sessionDb (handle_event sid uid cbs e s)) sid =
     map_option (doc_step e) (Session_findOne (sessionDb s) sid)"
  by (cases e; cases "Session_findOne (sessionDb s) sid")
     (simp_all add: on_qr_def on_ready_def on_auth_failure_def on_disconnected_def
        emitQRCode_def emitSessionStatus_def Let_def Session_findOne_update sessionDb_set_status)

lemma doc_run_events:
  "Session_findOne (sessionDb (run_events sid uid cbs evs s)) sid =
     map_option (\<lambda>d. fold doc_step evs d) (Session_findOne (sessionDb s) sid)"
proof (induction evs arbitrary: s)
  case Nil
  show ?case by (simp add: option.map_ident)
next
  case (Cons e evs)
  show ?case
    by (simp add: Cons.IH doc_handle_event option.map_comp comp_def)
qed

lemma fold_doc_step_invariant:
  assumes "no_qr_after_ready evs" "s_phoneNumber d = None \<or> (s_qrCode d = None \<and> \<not> list_ex is_Qr evs)"
  shows "\<not> both_set (fold doc_step evs d)"
  using assms
proof (induction evs arbitrary: d)
  case Nil
  then show ?case by (auto simp: both_set_def)
next
  case (Cons e evs)
  from Cons.prems(1) have rest: "no_qr_after_ready evs" by simp
  show ?case
  proof (cases e)
    case (Qr qr)
    with Cons.prems(2) have "s_phoneNumber (doc_step e d) = None" by auto
    with Cons.IH [OF rest, of "doc_step e d"] show ?thesis by simp
  next
    case (Ready w)
    with Cons.prems(1) have "\<not> list_ex is_Qr evs" by simp
    moreover from Ready have "s_qrCode (doc_step e d) = None" by simp
    ultimately show ?thesis using Cons.IH [OF rest, of "doc_step e d"] by simp
  next
    case AuthFailure
    with Cons.prems(2) have "s_phoneNumber (doc_step e d) = None \<or>
        (s_qrCode (doc_step e d) = None \<and> \<not> list_ex is_Qr evs)" by auto
    with Cons.IH [OF rest, of "doc_step e d"] show ?thesis by simp
  next
    case Disconnected
    with Cons.prems(2) have "s_phoneNumber (doc_step e d) = None \<or>
        (s_qrCode (doc_step e d) = None \<and> \<not> list_ex is_Qr evs)" by auto
    with Cons.IH [OF rest, of "doc_step e d"] show ?thesis by simp
  qed
qed

text \<open>
  C9, as the claim states it, fails: a \<^verbatim>\<open>qr\<close> event after a \<^verbatim>\<open>ready\<close> event leaves
  both \<^verbatim>\<open>qrCode\<close> and \<^verbatim>\<open>phoneNumber\<close> set, because the \<^verbatim>\<open>qr\<close> handler does not touch
  \<^verbatim>\<open>phoneNumber\<close>. The second half is the same with a restart in between: a session
  that was paired and ready is restored at startup and asks for a new pairing.
\<close>

theorem qr_after_ready_both_set:
  "map_option both_set (Session_findOne (sessionDb (run_events ''s1'' ''u1'' no_callbacks
      [Qr ''ABC'', Ready ''15550001'', Qr ''DEF''] created)) ''s1'') = Some True \<and>
   map_option both_set (Session_findOne (sessionDb (on_qr ''s1'' ''u1'' no_callbacks ''DEF''
      (restoreSessions (\<lambda>i. False)
        (run_events ''s1'' ''u1'' no_callbacks [Qr ''ABC'', Ready ''15550001''] created)))) ''s1'')
     = Some True"
proof -
  have d: "Session_findOne (sessionDb created) ''s1'' = Some (example_session ''u1'' ''s1'' INITIALIZING)"
    by (simp add: created_eq empty_state_def example_session_def)
  have a: "map_option both_set (Session_findOne (sessionDb (run_events ''s1'' ''u1'' no_callbacks
      [Qr ''ABC'', Ready ''15550001'', Qr ''DEF''] created)) ''s1'') = Some True"
    by (simp only: doc_run_events d) (simp add: both_set_def example_session_def)
  define s1 where "s1 = run_events ''s1'' ''u1'' no_callbacks [Qr ''ABC'', Ready ''15550001''] created"
  define d1 where "d1 = (example_session ''u1'' ''s1'' INITIALIZING)
        \<lparr>s_status := READY, s_phoneNumber := Some ''15550001'', s_qrCode := None\<rparr>"
  have id1: "s_sessionId d1 = ''s1''" and st1: "s_status d1 = READY"
    by (simp_all add: d1_def example_session_def)
  have db1: "sessionDb s1 = [d1]"
    by (simp add: s1_def d1_def created_eq on_qr_def on_ready_def emitQRCode_def emitSessionStatus_def
        Let_def empty_state_def example_session_def)
  have f1: "Session_findOne (sessionDb s1) ''s1'' = Some d1"
    by (simp add: db1 id1)
  have found: "Session_find (sessionDb s1) [READY, SYNCING, DISCONNECTED] = [d1]"
    by (simp add: db1 Session_find_def st1)
  have "restoreSessions (\<lambda>i. False) s1 = restore_loop (\<lambda>i. False) [d1] s1"
    by (simp add: restoreSessions_def found del: restore_loop.simps)
  then have d2: "Session_findOne (sessionDb (restoreSessions (\<lambda>i. False) s1)) ''s1'' =
      Some (d1\<lparr>s_status := INITIALIZING\<rparr>)"
    by (simp only: restore_loop_step restore_loop.simps(1)) (simp add: restoreSession_doc id1 f1)
  have "map_option both_set (Session_findOne (sessionDb (on_qr ''s1'' ''u1'' no_callbacks ''DEF''
      (restoreSessions (\<lambda>i. False) s1))) ''s1'') = Some True"
    using doc_handle_event [of "''s1''" "''u1''" no_callbacks "Qr ''DEF''" "restoreSessions (\<lambda>i. False) s1"]
    by (simp add: d2 both_set_def d1_def)
  then have b: "map_option both_set (Session_findOne (sessionDb (on_qr ''s1'' ''u1'' no_callbacks ''DEF''
      (restoreSessions (\<lambda>i. False)
        (run_events ''s1'' ''u1'' no_callbacks [Qr ''ABC'', Ready ''15550001''] created)))) ''s1'')
     = Some True"
    unfolding s1_def .
  from a b show ?thesis by blast
qed

text \<open>
  C9, amended. For a session record that starts without a phone number, after every
  sequence of \<^verbatim>\<open>qr\<close>, \<^verbatim>\<open>ready\<close>, \<^verbatim>\<open>auth_failure\<close> and \<^verbatim>\<open>disconnected\<close> handler
  executions in which no \<^verbatim>\<open>qr\<close> event comes after a \<^verbatim>\<open>ready\<close> event, \<^verbatim>\<open>qrCode\<close> and
  \<^verbatim>\<open>phoneNumber\<close> are not both set. A \<^verbatim>\<open>qr\<close> event for a record that has a phone
  number leaves both set.
\<close>

theorem qr_phone_exclusive:
  assumes "Session_findOne (sessionDb s) sid = Some d" "s_phoneNumber d = None"
    and "no_qr_after_ready evs"
  shows "(\<exists>d'. Session_findOne (sessionDb (run_events sid uid cbs evs s)) sid = Some d' \<and>
            \<not> both_set d') \<and>
         (Session_findOne (sessionDb st) sid = Some doc \<and> s_phoneNumber doc \<noteq> None \<longrightarrow>
            map_option both_set (Session_findOne (sessionDb (on_qr sid uid cbs qr st)) sid) = Some True)"
proof -
  have "\<exists>d'. Session_findOne (sessionDb (run_events sid uid cbs evs s)) sid = Some d' \<and> \<not> both_set d'"
    using assms fold_doc_step_invariant [of evs d] by (simp add: doc_run_events)
  moreover have "Session_findOne (sessionDb st) sid = Some doc \<and> s_phoneNumber doc \<noteq> None \<longrightarrow>
            map_option both_set (Session_findOne (sessionDb (on_qr sid uid cbs qr st)) sid) = Some True"
    using doc_handle_event [of sid uid cbs "Qr qr" st] by (auto simp add: both_set_def)
  ultimately show ?thesis by blast
qed

theorem qr_phone_exclusive_witness:
  "Session_findOne (sessionDb created) ''s1'' = Some (example_session ''u1'' ''s1'' INITIALIZING) \<and>
   s_phoneNumber (example_session ''u1'' ''s1'' INITIALIZING) = None \<and>
   no_qr_after_ready [Qr ''ABC'', Qr ''DEF'', Ready ''15550001'', Disconnected] \<and>
   (\<exists>d'. Session_findOne (sessionDb (run_events ''s1'' ''u1'' no_callbacks
             [Qr ''ABC'', Qr ''DEF'', Ready ''15550001'', Disconnected] created)) ''s1'' = Some d' \<and>
          \<not> both_set d') \<and>
   map_option s_phoneNumber (Session_findOne (sessionDb (run_events ''s1'' ''u1'' no_callbacks
       [Qr ''ABC'', Ready ''15550001''] created)) ''s1'') = Some (Some ''15550001'') \<and>
   map_option both_set (Session_findOne (sessionDb (on_qr ''s1'' ''u1'' no_callbacks ''DEF''
       (run_events ''s1'' ''u1'' no_callbacks [Qr ''ABC'', Ready ''15550001''] created))) ''s1'')
     = Some True"
proof -
  define st where "st = run_events ''s1'' ''u1'' no_callbacks [Qr ''ABC'', Ready ''15550001''] created"
  define doc where "doc = (example_session ''u1'' ''s1'' INITIALIZING)
        \<lparr>s_status := READY, s_phoneNumber := Some ''15550001'', s_qrCode := None\<rparr>"
  have h1: "Session_findOne (sessionDb created) ''s1'' = Some (example_session ''u1'' ''s1'' INITIALIZING)"
    by (simp add: created_eq empty_state_def example_session_def)
  have h2: "s_phoneNumber (example_session ''u1'' ''s1'' INITIALIZING) = None"
    by (simp add: example_session_def)
  have h3: "no_qr_after_ready [Qr ''ABC'', Qr ''DEF'', Ready ''15550001'', Disconnected]" by simp
  have h4: "Session_findOne (sessionDb st) ''s1'' = Some doc"
    unfolding st_def doc_def by (simp only: doc_run_events h1) simp
  have h5: "s_phoneNumber doc \<noteq> None" by (simp add: doc_def)
  have p: "map_option s_phoneNumber (Session_findOne (sessionDb st) ''s1'') = Some (Some ''15550001'')"
    by (simp add: h4 doc_def)
  note t = qr_phone_exclusive [OF h1 h2 h3, where uid = "''u1''" and cbs = no_callbacks
             and st = st and doc = doc and qr = "''DEF''"]
  from t h4 h5 have q: "map_option both_set
      (Session_findOne (sessionDb (on_qr ''s1'' ''u1'' no_callbacks ''DEF'' st)) ''s1'') = Some True"
    by blast
  from t have r: "\<exists>d'. Session_findOne (sessionDb (run_events ''s1'' ''u1'' no_callbacks
             [Qr ''ABC'', Qr ''DEF'', Ready ''15550001'', Disconnected] created)) ''s1'' = Some d' \<and>
          \<not> both_set d'"
    by blast
  from h1 h2 h3 r p q show ?thesis unfolding st_def by blast
qed

section \<open>Acknowledgments\<close>

lemma find_update_first:
  assumes "\<And>x. P x \<Longrightarrow> P (f x)"
  shows "find P (update_first P f xs) = map_option f (find P xs)"
  using assms by (induction xs) auto

lemma same_key_ack [simp]:
  "same_key sid mid (r\<lparr>m_ackStatus := a, m_updatedAt := t\<rparr>) = same_key sid mid r"
  by (simp add: same_key_def)

text \<open>
  C8, as the claim states it, fails: a \<^verbatim>\<open>message_ack\<close> event reporting level 1 for a
  message stored with level 3 lowers the stored level to 1.
\<close>

theorem message_ack_lowers:
  "map_option m_ackStatus (Message_findOne (messageDb
      (on_message ''s1'' ''u1'' (example_message ''m1'' 3) 5 empty_state)) ''s1'' ''m1'') = Some 3 \<and>
   map_option m_ackStatus (Message_findOne (messageDb
      (on_message_ack ''s1'' ''m1'' 1 6
        (on_message ''s1'' ''u1'' (example_message ''m1'' 3) 5 empty_state))) ''s1'' ''m1'') = Some 1"
  by (simp add: on_message_def on_message_ack_def Message_insertOne_def Message_findById_def
      Message_findOne_def Message_findOneAndUpdate_def new_message_doc_def example_message_def
      empty_state_def emitMessage_def emitToUser_def same_key_def or_int_def
      Chat_findOneAndUpdate_def)

text \<open>
  C8, amended. The \<^verbatim>\<open>message_ack\<close> handler overwrites the stored \<^verbatim>\<open>ackStatus\<close> of the
  message with the reported level, whatever the stored level was: the last report wins.
\<close>

theorem message_ack_overwrites:
  "map_option m_ackStatus (Message_findOne (messageDb (on_message_ack sid mid ack now s)) sid mid)
     = map_option (\<lambda>r. ack) (Message_findOne (messageDb s) sid mid)"
  by (simp add: on_message_ack_def Message_findOneAndUpdate_def Message_findOne_def
      find_update_first option.map_comp comp_def)

section \<open>Message ingestion\<close>

lemma ingest_doc_key [simp]:
  "m_sessionId (ingest_doc sid now x) = sid" "m_messageId (ingest_doc sid now x) = ingest_id x"
  by (cases x; simp add: ingest_doc_def new_message_doc_def)+

lemma ingest_step_present:
  assumes "list_ex (same_key sid (ingest_id x)) (rows (messageDb s))"
  shows "ingest_step sid uid now x s = s"
  using assms
  by (cases x) (simp_all add: on_message_def sync_insert_def Message_insertOne_def new_message_doc_def)

lemma find_append_new:
  assumes "list_all (\<lambda>r. \<not> P r) xs" "P y"
  shows "find P (xs @ [y]) = Some y"
  using assms by (induction xs) auto

lemma ingest_step_absent:
  assumes "\<not> list_ex (same_key sid (ingest_id x)) (rows (messageDb s))"
    and "ids_fresh (messageDb s)"
  shows "rows (messageDb (ingest_step sid uid now x s)) =
           rows (messageDb s) @ [(ingest_doc sid now x)\<lparr>m_id := next_id (messageDb s)\<rparr>]"
    and "emitted (ingest_step sid uid now x s) =
           emitted s @ (if is_Live x
             then [(uid, MESSAGE_RECEIVED sid ((ingest_doc sid now x)\<lparr>m_id := next_id (messageDb s)\<rparr>))]
             else [])"
proof -
  let ?row = "(ingest_doc sid now x)\<lparr>m_id := next_id (messageDb s)\<rparr>"
  have fresh: "list_all (\<lambda>r. \<not> m_id r = next_id (messageDb s)) (rows (messageDb s))"
    using assms(2) by (auto simp: ids_fresh_def list_all_iff)
  have found: "find (\<lambda>r. m_id r = next_id (messageDb s)) (rows (messageDb s) @ [?row]) = Some ?row"
    using fresh by (rule find_append_new) simp
  show "rows (messageDb (ingest_step sid uid now x s)) = rows (messageDb s) @ [?row]"
    using assms(1)
    by (cases x) (simp_all add: on_message_def sync_insert_def Message_insertOne_def Let_def
        ingest_doc_def new_message_doc_def emitMessage_def emitToUser_def split: option.splits)
  show "emitted (ingest_step sid uid now x s) =
           emitted s @ (if is_Live x then [(uid, MESSAGE_RECEIVED sid ?row)] else [])"
  proof (cases x)
    case (Live msg)
    with assms(1) found show ?thesis
      by (simp add: on_message_def Message_insertOne_def Message_findById_def Let_def
          ingest_doc_def new_message_doc_def emitMessage_def)
  next
    case (Sync chatId msg)
    then show ?thesis by simp
  qed
qed

lemma ingest_all_present:
  assumes "list_ex (same_key sid mid) (rows (messageDb s))" "list_all (\<lambda>x. ingest_id x = mid) xs"
  shows "ingest_all sid uid now xs s = s"
  using assms by (induction xs) (simp_all add: ingest_step_present)

lemma ids_fresh_ingest_step:
  assumes "ids_fresh (messageDb s)"
  shows "ids_fresh (messageDb (ingest_step sid uid now x s))"
proof (cases "list_ex (same_key sid (ingest_id x)) (rows (messageDb s))")
  case True
  then show ?thesis using assms by (simp add: ingest_step_present)
next
  case False
  have nid: "next_id (messageDb (ingest_step sid uid now x s)) = Suc (next_id (messageDb s))"
    using False
    by (cases x) (simp_all add: on_message_def sync_insert_def Message_insertOne_def Let_def
        new_message_doc_def emitMessage_def emitToUser_def split: option.splits)
  show ?thesis
    using assms ingest_step_absent(1) [OF False assms, of uid now]
    by (auto simp add: ids_fresh_def nid list_all_iff)
qed

text \<open>
  C1, as the claim states it, fails: when the synchronisation task stores a message
  first and the live \<^verbatim>\<open>message\<close> event for it arrives afterwards, one row is stored and
  \<^verbatim>\<open>message_received\<close> is never published for it.
\<close>

theorem sync_first_no_event:
  "stored_count ''s1'' ''m1''
     (ingest_all ''s1'' ''u1'' 5 [Sync ''c1'' (example_message ''m1'' 1), Live (example_message ''m1'' 1)]
        empty_state) = 1 \<and>
   received_count ''s1'' ''m1''
     (ingest_all ''s1'' ''u1'' 5 [Sync ''c1'' (example_message ''m1'' 1), Live (example_message ''m1'' 1)]
        empty_state) = 0"
  by (simp add: sync_insert_def on_message_def Message_insertOne_def new_message_doc_def
      example_message_def empty_state_def same_key_def stored_count_def received_count_def)

text \<open>
  C1, amended. For a message that is not yet stored, any non-empty sequence of
  ingestions of its identifier, live or from the synchronisation task in any order, has
  the effect of the first one alone: exactly one row is stored, it holds what the first
  ingestion wrote, and every later ingestion changes nothing. \<^verbatim>\<open>message_received\<close> is
  published once when the first ingestion is the live event, and not at all when it is
  the synchronisation task.
\<close>

theorem ingest_once:
  assumes "ids_fresh (messageDb s)"
    and "stored_count sid mid s = 0"
    and "list_all (\<lambda>x. ingest_id x = mid) (x # xs)"
  shows "ingest_all sid uid now (x # xs) s = ingest_step sid uid now x s \<and>
         stored_count sid mid (ingest_all sid uid now (x # xs) s) = 1 \<and>
         Message_findOne (messageDb (ingest_all sid uid now (x # xs) s)) sid mid
           = Some ((ingest_doc sid now x)\<lparr>m_id := next_id (messageDb s)\<rparr>) \<and>
         received_count sid mid (ingest_all sid uid now (x # xs) s)
           = received_count sid mid s + (if is_Live x then 1 else 0)"
proof -
  let ?row = "(ingest_doc sid now x)\<lparr>m_id := next_id (messageDb s)\<rparr>"
  let ?s1 = "ingest_step sid uid now x s"
  from assms(3) have idx: "ingest_id x = mid" and rest: "list_all (\<lambda>x. ingest_id x = mid) xs"
    by simp_all
  from assms(2) have none: "filter (same_key sid mid) (rows (messageDb s)) = []"
    by (simp add: stored_count_def)
  then have absent: "\<not> list_ex (same_key sid (ingest_id x)) (rows (messageDb s))"
    by (simp add: idx list_ex_iff filter_empty_conv)
  have key: "same_key sid mid ?row" by (simp add: same_key_def idx)
  have rows1: "rows (messageDb ?s1) = rows (messageDb s) @ [?row]"
    using absent assms(1) by (rule ingest_step_absent)
  have em1: "emitted ?s1 = emitted s @ (if is_Live x then [(uid, MESSAGE_RECEIVED sid ?row)] else [])"
    using absent assms(1) by (rule ingest_step_absent)
  have present: "list_ex (same_key sid mid) (rows (messageDb ?s1))"
    using key by (simp add: rows1)
  have all: "ingest_all sid uid now (x # xs) s = ?s1"
    using present rest by (simp add: ingest_all_present)
  have cnt: "stored_count sid mid ?s1 = 1"
    using none key by (simp add: stored_count_def rows1)
  have nf: "list_all (\<lambda>r. \<not> same_key sid mid r) (rows (messageDb s))"
    using none by (simp add: list_all_iff filter_empty_conv)
  have fnd: "Message_findOne (messageDb ?s1) sid mid = Some ?row"
    unfolding Message_findOne_def rows1 using nf key by (rule find_append_new)
  have rc: "received_count sid mid ?s1 = received_count sid mid s + (if is_Live x then 1 else 0)"
    by (simp add: received_count_def em1 idx)
  show ?thesis using all cnt fnd rc by simp
qed

theorem ingest_once_witness:
  "ids_fresh (messageDb empty_state) \<and> stored_count ''s1'' ''m1'' empty_state = 0 \<and>
   stored_count ''s1'' ''m1''
     (ingest_all ''s1'' ''u1'' 5 [Live (example_message ''m1'' 1), Sync ''c1'' (example_message ''m1'' 2),
        Live (example_message ''m1'' 3)] empty_state) = 1 \<and>
   received_count ''s1'' ''m1''
     (ingest_all ''s1'' ''u1'' 5 [Live (example_message ''m1'' 1), Sync ''c1'' (example_message ''m1'' 2),
        Live (example_message ''m1'' 3)] empty_state) = 1"
proof -
  have h1: "ids_fresh (messageDb empty_state)" by (simp add: ids_fresh_def empty_state_def)
  have h2: "stored_count ''s1'' ''m1'' empty_state = 0" by (simp add: stored_count_def empty_state_def)
  have h3: "list_all (\<lambda>x. ingest_id x = ''m1'')
              (Live (example_message ''m1'' 1) # [Sync ''c1'' (example_message ''m1'' 2),
                 Live (example_message ''m1'' 3)])"
    by (simp add: example_message_def)
  have r0: "received_count ''s1'' ''m1'' empty_state = 0"
    by (simp add: received_count_def empty_state_def)
  from ingest_once [OF h1 h2 h3, of "''u1''" 5] h1 h2 r0 show ?thesis
    by (auto simp del: ingest_all.simps ingest_step.simps)
qed

section \<open>Rounding to doubles\<close>


















subsection \<open>How far the double computation is from the exact formula\<close>







section \<open>Progress of a synchronisation pass\<close>

lemma sync_chat_fields [simp]:
  "emitted (sync_chat sid now chat s) = emitted s"
  "sessionDb (sync_chat sid now chat s) = sessionDb s"
  "sessions (sync_chat sid now chat s) = sessions s"
  "syncTasks (sync_chat sid now chat s) = syncTasks s"
  by (simp_all add: sync_chat_def Let_def split: sum.splits)





lemma startBackgroundSync_failed_emitted:
  assumes "Session_findOne (sessionDb s) sid = Some d"
  shows "emitted (startBackgroundSync sid uid (Inl e) now s) =
           emitted s @ [(uid, SYNC_PROGRESS sid 0), (s_userId d, SESSION_STATUS sid FAILED)]"
  using assms
  by (simp add: startBackgroundSync_def Let_def emitSyncProgress_def emitSessionStatus_def
      sync_failed_def Session_findOne_update)











section \<open>The ready event and the synchronisation task\<close>






section \<open>What reaches the fan-out\<close>

lemma silent_handlers:
  "emitted (on_auth_failure sid s) = emitted s"
  "emitted (on_initialize_rejected sid s) = emitted s"
  "emitted (on_disconnected sid cbs s) = emitted s @ cb_emissions (onDisconnected cbs)"
  by (simp_all add: on_auth_failure_def on_initialize_rejected_def on_disconnected_def Let_def)

text \<open>
  C6. Every status transition, and so the transition to \<^verbatim>\<open>FAILED\<close> on an authentication
  failure or on a failed client initialisation and the transition to \<^verbatim>\<open>DISCONNECTED\<close>,
  is to be emitted to the owning user. The code does not do that. For the ready session
  \<^verbatim>\<open>s1\<close> of user \<^verbatim>\<open>u1\<close>, whose handle has no callbacks: the \<^verbatim>\<open>auth_failure\<close> handler
  and the rejection of \<^verbatim>\<open>client.initialize()\<close> persist \<^verbatim>\<open>FAILED\<close>, the \<^verbatim>\<open>disconnected\<close>
  handler persists \<^verbatim>\<open>DISCONNECTED\<close>, and none of the three hands anything to the fan-out.
  The failure path of the synchronisation task, for the same session, persists
  \<^verbatim>\<open>FAILED\<close> and does emit \<^verbatim>\<open>session_status FAILED\<close> to \<^verbatim>\<open>u1\<close>.
\<close>

theorem failed_and_disconnected_not_emitted:
  "map_option s_userId (Session_findOne (sessionDb two_active) ''s1'') = Some ''u1'' \<and>
   map_option s_status (Session_findOne (sessionDb two_active) ''s1'') = Some READY \<and>
   emitted two_active = [] \<and>
   map_option s_status (Session_findOne (sessionDb (on_auth_failure ''s1'' two_active)) ''s1'')
     = Some FAILED \<and>
   emitted (on_auth_failure ''s1'' two_active) = [] \<and>
   map_option s_status (Session_findOne (sessionDb (on_initialize_rejected ''s1'' two_active)) ''s1'')
     = Some FAILED \<and>
   emitted (on_initialize_rejected ''s1'' two_active) = [] \<and>
   map_option s_status
     (Session_findOne (sessionDb (on_disconnected ''s1'' no_callbacks two_active)) ''s1'')
     = Some DISCONNECTED \<and>
   emitted (on_disconnected ''s1'' no_callbacks two_active) = [] \<and>
   map_option s_status (Session_findOne (sessionDb
       (startBackgroundSync ''s1'' ''u1'' (Inl (ClientError ''getChats'')) 9 two_active)) ''s1'')
     = Some FAILED \<and>
   emitted (startBackgroundSync ''s1'' ''u1'' (Inl (ClientError ''getChats'')) 9 two_active)
     = [(''u1'', SYNC_PROGRESS ''s1'' 0), (''u1'', SESSION_STATUS ''s1'' FAILED)]"
proof -
  have rec: "Session_findOne (sessionDb two_active) ''s1'' = Some (example_session ''u1'' ''s1'' READY)"
    by (simp add: two_active_def empty_state_def example_session_def)
  have own: "s_userId (example_session ''u1'' ''s1'' READY) = ''u1''"
    and st: "s_status (example_session ''u1'' ''s1'' READY) = READY"
    by (simp_all add: example_session_def)
  have e: "emitted two_active = []" by (simp add: two_active_def empty_state_def)
  have a: "map_option s_status (Session_findOne (sessionDb (on_auth_failure ''s1'' two_active)) ''s1'')
             = Some FAILED"
    by (simp add: on_auth_failure_def sessionDb_set_status rec)
  have i: "map_option s_status
             (Session_findOne (sessionDb (on_initialize_rejected ''s1'' two_active)) ''s1'') = Some FAILED"
    by (simp add: on_initialize_rejected_doc rec)
  have d: "map_option s_status
             (Session_findOne (sessionDb (on_disconnected ''s1'' no_callbacks two_active)) ''s1'')
             = Some DISCONNECTED"
    by (simp add: on_disconnected_def Let_def sessionDb_set_status rec)
  have de: "emitted (on_disconnected ''s1'' no_callbacks two_active) = []"
    by (simp add: silent_handlers e no_callbacks_def cb_emissions_def)
  have f: "map_option s_status (Session_findOne (sessionDb
             (startBackgroundSync ''s1'' ''u1'' (Inl (ClientError ''getChats'')) 9 two_active)) ''s1'')
             = Some FAILED"
    by (simp add: startBackgroundSync_def sync_failed_def Let_def emitSyncProgress_def
        emitSessionStatus_def Session_findOne_update sessionDb_set_status rec)
  have fe: "emitted (startBackgroundSync ''s1'' ''u1'' (Inl (ClientError ''getChats'')) 9 two_active)
             = [(''u1'', SYNC_PROGRESS ''s1'' 0), (''u1'', SESSION_STATUS ''s1'' FAILED)]"
    by (simp add: startBackgroundSync_failed_emitted [OF rec] e own)
  from rec own st e a i d de f fe show ?thesis
    by (simp add: silent_handlers)
qed

end
